theory Spec2Isabelle
  imports Complex_Main "HOL-Library.Word"
begin

section \<open>Numbers and errors\<close>

text \<open>
  JavaScript numbers are modelled as ideal reals: every finite double is a rational, and the
  quantities the development computes with (bin indices times \<open>44100 / 2048\<close>, fixed fade
  lengths, thresholds) are exact in both. \<open>NaN\<close> and the infinities are not modelled.
  A value that may be \<open>undefined\<close> is an \<open>option\<close>; the truthiness test that the
  source applies to such a value (\<open>!x\<close>, \<open>x || y\<close>, \<open>x && y\<close>) is \<open>truthy\<close>.
\<close>

datatype error = Error string

definition truthy :: "real option \<Rightarrow> bool" where
  "truthy v = (case v of None \<Rightarrow> False | Some x \<Rightarrow> x \<noteq> 0)"

text \<open>\<open>a || b\<close> on possibly undefined numbers.\<close>

definition js_or :: "real option \<Rightarrow> real option \<Rightarrow> real option" where
  "js_or a b = (if truthy a then a else b)"

text \<open>
  \<open>parseFloat(x.toFixed(d))\<close>: the decimal with \<open>d\<close> fraction digits nearest to \<open>x\<close>,
  the larger in magnitude on a tie; the sign is handled apart, as \<open>Number.prototype.toFixed\<close>
  does.
\<close>

definition toFixed :: "nat \<Rightarrow> real \<Rightarrow> real" where
  "toFixed d x =
     (if x < 0 then - (of_int \<lfloor>(- x) * 10 ^ d + 1 / 2\<rfloor> / 10 ^ d)
      else of_int \<lfloor>x * 10 ^ d + 1 / 2\<rfloor> / 10 ^ d)"

section \<open>The filter graph\<close>

text \<open>
  The source assembles FFmpeg filter text. One element of its \<open>filters\<close> array, such as
  \<^verbatim>\<open>[bg0_volfade],highpass=f=90,equalizer=f=2000:width_type=q:width=0.8:g=-4[bg0_volfade_eq]\<close>,
  is a \<open>chain\<close>: the labels it reads, the filters it applies in order, and the label (bus) it
  writes. Labels keep their brackets, as in the source. The numeric arguments stay numbers;
  a width printed with \<open>toFixed(2)\<close> is the number so rounded.
\<close>

datatype width_type = Q | H

datatype amix_duration = Longest | First

datatype ffilter =
    Volume "real option"
  | Afade_in real
  | Afade_out real real
  | Highpass real
  | Equalizer real width_type real real
  | Amix nat amix_duration "real option"
  | Sidechaincompress real real real real
  | Anull
  | Loudnorm real "real option"
  | Alimiter real real real real

record chain =
  inputs :: "string list"
  ops :: "ffilter list"
  out :: string

section \<open>EQCalculator\<close>

record vocal_profile =
  dominantFrequency :: real
  low :: real
  mid :: real
  high :: real
  peakFrequencies :: "(real \<times> real) list"

record vocal_freqs =
  lowCutoff :: real
  bodyLow :: real
  bodyHigh :: real
  midPresenceLow :: real
  midPresenceHigh :: real
  air :: real

record eq_calculator =
  eq_sampleRate :: real
  VOCAL_FREQS :: vocal_freqs

text \<open>The constructor; \<open>sampleRate\<close> defaults to 44100.\<close>

definition EQCalculator :: "real \<Rightarrow> eq_calculator" where
  "EQCalculator sr =
     \<lparr>eq_sampleRate = sr,
      VOCAL_FREQS = \<lparr>lowCutoff = 80, bodyLow = 100, bodyHigh = 300,
                     midPresenceLow = 1000, midPresenceHigh = 5000, air = 8000\<rparr>\<rparr>"

definition calculateQFromBandwidth :: "real \<Rightarrow> real \<Rightarrow> real" where
  "calculateQFromBandwidth fCenter bandwidthInHz =
     (if bandwidthInHz = 0 then 1.0 else fCenter / bandwidthInHz)"

text \<open>
  \<open>generateBackgroundEQ\<close>. The profile may be absent (\<open>vocalProfile &&\<close>).
  \<open>filters\<close> is the array of that name, in push order;
  \<open>inputLabel.replace('[', '').replace(']', '')\<close> drops the first occurrence of each
  bracket. The returned text is the input label, the filters joined by commas, and the
  bracketed output label; with no filters (never the case, the high-pass is always pushed)
  it is the two labels alone, which is the same chain with \<open>ops = []\<close>.
\<close>

definition generateBackgroundEQ ::
  "eq_calculator \<Rightarrow> vocal_profile option \<Rightarrow> string \<Rightarrow> string \<Rightarrow> chain" where
  "generateBackgroundEQ this vocalProfile layerType inputLabel =
     (let outputLabel = remove1 CHR '']'' (remove1 CHR ''['' inputLabel) @ ''_eq'';
          baseGainReduction = - 4;
          filters =
            [Highpass 90] @
            (if (case vocalProfile of
                   None \<Rightarrow> False
                 | Some p \<Rightarrow> dominantFrequency p > bodyLow (VOCAL_FREQS this)
                             \<and> dominantFrequency p < midPresenceHigh (VOCAL_FREQS this))
             then (let centerFreq = dominantFrequency (the vocalProfile);
                       gain = baseGainReduction;
                       bandwidth = 1500;
                       qValue = calculateQFromBandwidth centerFreq bandwidth
                   in [Equalizer centerFreq Q (toFixed 2 qValue) gain])
             else [Equalizer 2000 Q 0.8 baseGainReduction]) @
            (if layerType = ''ambience'' \<or> layerType = ''music''
             then [Equalizer 5000 Q 1.0 (- 3)] else [])
      in \<lparr>inputs = [inputLabel], ops = filters, out = ''['' @ outputLabel @ '']''\<rparr>)"

section \<open>VocalAnalyzer\<close>

text \<open>
  The decoder's output is raw \<open>s16le\<close> PCM: a list of bytes. \<open>fft-js\<close> is an external
  library, so its three functions are parameters of the model; \<open>phasors[ix]\<close> past the end
  of the array is \<open>undefined\<close>, here \<open>None\<close>.
\<close>

type_synonym byte = "8 word"

record bin =
  frequency :: real
  magnitude :: real

record fft_js =
  fft :: "real list \<Rightarrow> complex list"
  fftFreq :: "complex list \<Rightarrow> real \<Rightarrow> real list"
  fftMag :: "complex option \<Rightarrow> real"

record vocal_analyzer =
  sampleRate :: real
  fftSize :: nat
  buffer :: "byte list"
  samplesPerFrame :: nat
  bytesPerSample :: nat
  allMagnitudes :: "bin list list"

text \<open>The constructor; the defaults are \<open>sampleRate = 44100\<close> and \<open>fftSize = 2048\<close>.\<close>

definition VocalAnalyzer :: "real \<Rightarrow> nat \<Rightarrow> vocal_analyzer" where
  "VocalAnalyzer sr n =
     \<lparr>sampleRate = sr, fftSize = n, buffer = [], samplesPerFrame = n,
      bytesPerSample = 2, allMagnitudes = []\<rparr>"

definition getDefaultVocalProfile :: vocal_profile where
  "getDefaultVocalProfile =
     \<lparr>dominantFrequency = 0, low = 0, mid = 0, high = 0, peakFrequencies = []\<rparr>"










section \<open>Configuration and layers\<close>

text \<open>
  \<open>audio-settings.json\<close> and \<open>library-mappings.json\<close> are not among the sources;
  their entries are parameters. \<open>mixing\<close> is looked up by key
  (\<open>this.config.mixing[`${layer.type}Volume`]\<close>), so it is a map from keys.
\<close>

record voice_eq =
  eq_frequency :: real
  eq_width :: real
  eq_gain :: real

record ducking =
  enabled :: bool
  threshold :: real
  ratio :: real
  attack :: real
  release :: real

record mastering =
  normalizeLoudness :: bool
  limiterThreshold :: "real option"
  limiterAttack :: "real option"
  limiterRelease :: "real option"

record processing =
  cfg_sampleRate :: real
  format :: string
  bitRate :: string
  channels :: nat
  targetLufs :: "real option"
  truePeakDb :: "real option"

record config =
  mixing :: "string \<Rightarrow> real option"
  voiceEQ :: "voice_eq option"
  cfg_ducking :: ducking
  cfg_mastering :: mastering
  cfg_processing :: processing

text \<open>
  A layer object. A missing or empty \<open>filePath\<close> is the empty string (both are falsy and
  the source only ever tests it); \<open>duration\<close> and \<open>volume\<close> may be \<open>undefined\<close>;
  \<open>loop\<close> is set on ambience and music only.
\<close>

record layer =
  filePath :: string
  type :: string
  volume :: "real option"
  fadeIn :: real
  fadeOut :: real
  duration :: "real option"
  loop :: "bool option"
  startOffset :: real

section \<open>LayerManager\<close>

text \<open>
  The file system and \<open>ffprobe\<close> are the world the assembler reads:
  \<open>fs_access\<close> says whether \<open>fs.access\<close> succeeds, \<open>ffprobe\<close> gives either the error
  of the probe or \<open>metadata.format.duration\<close>, which may be absent. For the content
  analyzer the world also holds the transcription service and the decoder: \<open>decode\<close> gives
  the chunks of PCM bytes FFmpeg emits for a file and how the stream stops.
\<close>

record world =
  fs_access :: "string \<Rightarrow> bool"
  ffprobe :: "string \<Rightarrow> error + real option"
  speechToText :: "string \<Rightarrow> error + string"
  decode :: "string \<Rightarrow> byte list list \<times> error option"

record structural =
  intro :: "string option"
  outro :: "string option"

text \<open>An absent list of candidates is the empty list: the source skips both alike.\<close>

record libraries =
  ambience :: "string list"
  music :: "string list"
  effects :: "string list"
  structural :: "structural option"

record layer_manager =
  lm_config :: config
  audioLibraryBasePath :: string

definition getAudioDuration :: "world \<Rightarrow> string \<Rightarrow> error + real option" where
  "getAudioDuration w path =
     (if fs_access w path
      then (case ffprobe w path of Inl err \<Rightarrow> Inl err | Inr d \<Rightarrow> Inr d)
      else Inl (Error (''Audio file does not exist or is inaccessible: '' @ path)))"

text \<open>
  \<open>_resolveLibraryPath\<close>; \<open>path.join\<close> is taken as joining with a separator. The
  argument is \<open>None\<close> when the source passes \<open>undefined\<close>.
\<close>

definition resolveLibraryPath :: "layer_manager \<Rightarrow> string option \<Rightarrow> error + string" where
  "resolveLibraryPath this relativePath =
     (case relativePath of
        None \<Rightarrow> Inl (Error ''Relative path cannot be null or undefined.'')
      | Some rel \<Rightarrow>
          if rel = [] then Inl (Error ''Relative path cannot be null or undefined.'')
          else Inr (audioLibraryBasePath this @ ''/'' @ rel))"

text \<open>
  \<open>xs[Math.floor(r * xs.length)]\<close>, where \<open>r\<close> is what \<open>Math.random()\<close> returned;
  outside the array the read is \<open>undefined\<close>.
\<close>

definition pick :: "real \<Rightarrow> string list \<Rightarrow> string option" where
  "pick r xs =
     (let i = \<lfloor>r * real (length xs)\<rfloor>
      in if 0 \<le> i \<and> i < int (length xs) then Some (xs ! nat i) else None)"

text \<open>
  One library layer of \<open>createLayers\<close>: resolve the path, probe the duration, build the
  object. Either step may throw, which ends \<open>createLayers\<close>.
\<close>

definition libraryLayer ::
  "layer_manager \<Rightarrow> world \<Rightarrow> string option \<Rightarrow> (string \<Rightarrow> real option \<Rightarrow> layer) \<Rightarrow> error + layer" where
  "libraryLayer this w relativePath mk =
     (case resolveLibraryPath this relativePath of
        Inl err \<Rightarrow> Inl err
      | Inr path \<Rightarrow>
          (case getAudioDuration w path of
             Inl err \<Rightarrow> Inl err
           | Inr d \<Rightarrow> Inr (mk path d)))"

definition truthy_path :: "string option \<Rightarrow> bool" where
  "truthy_path p = (case p of None \<Rightarrow> False | Some s \<Rightarrow> s \<noteq> [])"

text \<open>
  \<open>createLayers\<close>, section by section as the source numbers them. \<open>rnd\<close> holds the three
  values \<open>Math.random()\<close> returns at the ambience, music and effect picks. Each section
  either throws (\<open>Inl\<close>) or yields the layers it pushes.
\<close>

definition voiceSection :: "layer_manager \<Rightarrow> world \<Rightarrow> string \<Rightarrow> error + (real option \<times> layer list)" where
  "voiceSection this w voiceFilePath =
     (if voiceFilePath \<noteq> []
      then (case getAudioDuration w voiceFilePath of
              Inl err \<Rightarrow> Inl err
            | Inr voiceDuration \<Rightarrow>
                Inr (voiceDuration,
                     [\<lparr>filePath = voiceFilePath, type = ''voice'',
                       volume = mixing (lm_config this) ''voiceVolume'',
                       fadeIn = 0.5, fadeOut = 1.0, duration = voiceDuration,
                       loop = None, startOffset = 0\<rparr>]))
      else Inl (Error ''Voice file path is required.''))"

definition introSection :: "layer_manager \<Rightarrow> world \<Rightarrow> libraries \<Rightarrow> error + layer list" where
  "introSection this w libs =
     (case structural libs of
        None \<Rightarrow> Inr []
      | Some st \<Rightarrow>
          if truthy_path (intro st)
          then (case libraryLayer this w (intro st)
                       (\<lambda>introPath introDuration.
                          \<lparr>filePath = introPath, type = ''structural-intro'',
                           volume = js_or (mixing (lm_config this) ''introVolume'') (Some 1.0),
                           fadeIn = 0, fadeOut = 0.5, duration = introDuration,
                           loop = None, startOffset = 0\<rparr>) of
                  Inl err \<Rightarrow> Inl err
                | Inr l \<Rightarrow> Inr [l])
          else Inr [])"

text \<open>
  \<open>voiceDuration > 0 ? (voiceDuration - 1.0) : 0\<close>; an \<open>undefined\<close> duration compares
  false.
\<close>

definition outroStartOffset :: "real option \<Rightarrow> real" where
  "outroStartOffset voiceDuration =
     (case voiceDuration of
        None \<Rightarrow> 0
      | Some d \<Rightarrow> if d > 0 then d - 1.0 else 0)"

definition outroSection :: "layer_manager \<Rightarrow> world \<Rightarrow> libraries \<Rightarrow> real option \<Rightarrow> error + layer list" where
  "outroSection this w libs voiceDuration =
     (case structural libs of
        None \<Rightarrow> Inr []
      | Some st \<Rightarrow>
          if truthy_path (outro st)
          then (case libraryLayer this w (outro st)
                       (\<lambda>outroPath outroDuration.
                          \<lparr>filePath = outroPath, type = ''structural-outro'',
                           volume = js_or (mixing (lm_config this) ''outroVolume'') (Some 1.0),
                           fadeIn = 0.5, fadeOut = 0, duration = outroDuration,
                           loop = None, startOffset = outroStartOffset voiceDuration\<rparr>) of
                  Inl err \<Rightarrow> Inl err
                | Inr l \<Rightarrow> Inr [l])
          else Inr [])"

definition ambienceSection :: "layer_manager \<Rightarrow> world \<Rightarrow> real \<Rightarrow> libraries \<Rightarrow> error + layer list" where
  "ambienceSection this w r libs =
     (if length (ambience libs) > 0
      then (case libraryLayer this w (pick r (ambience libs))
                   (\<lambda>ambiencePath ambienceDuration.
                      \<lparr>filePath = ambiencePath, type = ''ambience'',
                       volume = mixing (lm_config this) ''ambienceVolume'',
                       fadeIn = 1.0, fadeOut = 1.0, duration = ambienceDuration,
                       loop = Some True, startOffset = 0\<rparr>) of
              Inl err \<Rightarrow> Inl err
            | Inr l \<Rightarrow> Inr [l])
      else Inr [])"

definition musicSection :: "layer_manager \<Rightarrow> world \<Rightarrow> real \<Rightarrow> libraries \<Rightarrow> error + layer list" where
  "musicSection this w r libs =
     (if length (music libs) > 0
      then (case libraryLayer this w (pick r (music libs))
                   (\<lambda>musicPath musicDuration.
                      \<lparr>filePath = musicPath, type = ''music'',
                       volume = mixing (lm_config this) ''musicVolume'',
                       fadeIn = 2.0, fadeOut = 2.0, duration = musicDuration,
                       loop = Some True, startOffset = 0\<rparr>) of
              Inl err \<Rightarrow> Inl err
            | Inr l \<Rightarrow> Inr [l])
      else Inr [])"

definition effectSection :: "layer_manager \<Rightarrow> world \<Rightarrow> real \<Rightarrow> libraries \<Rightarrow> error + layer list" where
  "effectSection this w r libs =
     (if length (effects libs) > 0
      then (case libraryLayer this w (pick r (effects libs))
                   (\<lambda>effectPath effectDuration.
                      \<lparr>filePath = effectPath, type = ''transmission-static'',
                       volume = mixing (lm_config this) ''transmissionStaticVolume'',
                       fadeIn = 0.1, fadeOut = 0.5, duration = effectDuration,
                       loop = None, startOffset = 0\<rparr>) of
              Inl err \<Rightarrow> Inl err
            | Inr l \<Rightarrow> Inr [l])
      else Inr [])"

definition createLayers ::
  "layer_manager \<Rightarrow> world \<Rightarrow> real \<times> real \<times> real \<Rightarrow> string \<Rightarrow> libraries \<Rightarrow> error + layer list" where
  "createLayers this w rnd voiceFilePath libs =
     (case voiceSection this w voiceFilePath of
        Inl err \<Rightarrow> Inl err
      | Inr (voiceDuration, ls1) \<Rightarrow>
     (case introSection this w libs of
        Inl err \<Rightarrow> Inl err
      | Inr ls2 \<Rightarrow>
     (case outroSection this w libs voiceDuration of
        Inl err \<Rightarrow> Inl err
      | Inr ls3 \<Rightarrow>
     (case ambienceSection this w (fst rnd) libs of
        Inl err \<Rightarrow> Inl err
      | Inr ls4 \<Rightarrow>
     (case musicSection this w (fst (snd rnd)) libs of
        Inl err \<Rightarrow> Inl err
      | Inr ls5 \<Rightarrow>
     (case effectSection this w (snd (snd rnd)) libs of
        Inl err \<Rightarrow> Inl err
      | Inr ls6 \<Rightarrow> Inr (ls1 @ ls2 @ ls3 @ ls4 @ ls5 @ ls6)))))))"

section \<open>ContentAnalyzer\<close>

text \<open>
  The keyword and sentiment functions work from configuration files and a language library
  that are not among the sources; they are parameters.
\<close>

record text_model =
  extractLocation :: "string \<Rightarrow> string"
  extractMood :: "string \<Rightarrow> string"
  extractTheme :: "string \<Rightarrow> string"
  extractKeywords :: "string \<Rightarrow> string list"
  extractSetting :: "string \<Rightarrow> string"
  getSentimentScore :: "string \<Rightarrow> real"

record analysis =
  transcript :: "string option"
  location :: string
  mood :: string
  intensity :: "string option"
  theme :: string
  a_keywords :: "string list"
  a_duration :: "real option"
  setting :: string
  sentimentScore :: real
  vocalProfile :: "vocal_profile option"

record content_analyzer =
  fftLib :: fft_js
  textModel :: text_model
  vocalAnalyzer :: vocal_analyzer


definition getDefaultAnalysis :: analysis where
  "getDefaultAnalysis =
     \<lparr>transcript = None, location = ''unknown'', mood = ''mysterious'',
      intensity = Some ''medium'', theme = ''discovery'', a_keywords = [],
      a_duration = Some 0, setting = ''outdoor'', sentimentScore = 0,
      vocalProfile = Some getDefaultVocalProfile\<rparr>"


section \<open>TransmissionMixer\<close>

record library_mappings =
  locationAmbience :: "string \<Rightarrow> string list option"
  unknownAmbience :: "string list"
  moodMusic :: "string \<Rightarrow> string list option"
  mysteriousMusic :: "string list"
  staticEffects :: "string list"
  introElements :: "string list"
  outroElements :: "string list"

record transmission_mixer =
  tm_config :: config
  libraryMappings :: library_mappings
  contentAnalyzer :: content_analyzer
  layerManager :: layer_manager
  eqCalculator :: eq_calculator



text \<open>Decimal digits of an index, for \<open>`[${index + 1}:a]`\<close> and \<open>`[bg${index}_volfade]`\<close>.\<close>

fun string_of_nat :: "nat \<Rightarrow> string" where
  "string_of_nat n =
     (if n < 10 then [''0123456789'' ! n]
      else string_of_nat (n div 10) @ [''0123456789'' ! (n mod 10)])"

text \<open>The fade filters both the voice and the background chains append.\<close>

definition fades :: "layer \<Rightarrow> ffilter list" where
  "fades l =
     (if fadeIn l > 0 then [Afade_in (fadeIn l)] else []) @
     (if fadeOut l > 0 \<and> truthy (duration l)
      then [Afade_out (the (duration l) - fadeOut l) (fadeOut l)] else [])"

text \<open>
  Section 2 of \<open>buildFilterComplex\<close>, one round of its \<open>backgroundLayers.forEach\<close>: the chains it
  pushes onto \<open>filters\<close> and the label it pushes onto \<open>processedBackgroundLabels\<close>. The
  source reads the output label back from the end of the EQ text with the pattern
  \<^verbatim>\<open>/\[([^\]]+)\]$/\<close>; that text ends in the bracketed output label, which is what the
  pattern finds.
\<close>

definition backgroundRound ::
  "transmission_mixer \<Rightarrow> analysis option \<Rightarrow> nat \<times> layer \<Rightarrow> chain list \<times> string" where
  "backgroundRound this vocalAnalysis il =
     (let index = fst il; l = snd il;
          inputLabel = ''['' @ string_of_nat (index + 1) @ '':a]'';
          bgVolFadeFilter =
            [Volume (js_or (js_or (volume l) (mixing (tm_config this) (type l @ ''Volume''))) (Some 0.1))]
            @ fades l;
          currentBgLabel = ''[bg'' @ string_of_nat index @ ''_volfade]'';
          volfade = \<lparr>inputs = [inputLabel], ops = bgVolFadeFilter, out = currentBgLabel\<rparr>
      in case (case vocalAnalysis of None \<Rightarrow> None | Some a \<Rightarrow> vocalProfile a) of
           Some profile \<Rightarrow>
             (let eq = generateBackgroundEQ (eqCalculator this) (Some profile) (type l) currentBgLabel
              in ([volfade, eq], out eq))
         | None \<Rightarrow> ([volfade], currentBgLabel))"

text \<open>
  \<open>buildFilterComplex\<close>, by the sections the source numbers. Section 1, the voice chain:
  volume, fades and the static voice EQ of the configuration.
\<close>

definition voiceChain :: "transmission_mixer \<Rightarrow> layer \<Rightarrow> chain" where
  "voiceChain this voiceLayer =
     \<lparr>inputs = [''[0:a]''],
      ops = [Volume (js_or (volume voiceLayer) (mixing (tm_config this) ''voiceVolume''))]
            @ fades voiceLayer
            @ (case voiceEQ (tm_config this) of
                 None \<Rightarrow> []
               | Some e \<Rightarrow> [Equalizer (eq_frequency e) H (eq_width e) (eq_gain e)]),
      out = ''[processedVoice]''\<rparr>"

text \<open>
  The merge of the processed backgrounds and section 3, the ducking: the chains pushed and
  \<open>mixedBackgroundsLabel\<close>, which is \<open>null\<close> when there is no background layer.
\<close>

definition backgroundMix :: "transmission_mixer \<Rightarrow> string list \<Rightarrow> chain list \<times> string option" where
  "backgroundMix this processedBackgroundLabels =
     (let duck = cfg_ducking (tm_config this) in
      if length processedBackgroundLabels > 0
      then (if enabled duck
            then ([\<lparr>inputs = processedBackgroundLabels,
                     ops = [Amix (length processedBackgroundLabels) Longest None],
                     out = ''[rawMixedBackgrounds]''\<rparr>,
                   \<lparr>inputs = [''[rawMixedBackgrounds]'', ''[processedVoice]''],
                     ops = [Sidechaincompress (threshold duck) (ratio duck) (attack duck) (release duck)],
                     out = ''[mixedBackgrounds]''\<rparr>],
                  Some ''[mixedBackgrounds]'')
            else ([\<lparr>inputs = processedBackgroundLabels,
                     ops = [Amix (length processedBackgroundLabels) Longest None],
                     out = ''[rawMixedBackgrounds]''\<rparr>],
                  Some ''[rawMixedBackgrounds]''))
      else ([], None))"

text \<open>Section 4, the final mix of the voice and the backgrounds.\<close>

definition finalMix :: "string option \<Rightarrow> chain" where
  "finalMix mixedBackgroundsLabel =
     (let finalMixInputLabels =
            [''[processedVoice]''] @ (case mixedBackgroundsLabel of None \<Rightarrow> [] | Some lbl \<Rightarrow> [lbl])
      in if length finalMixInputLabels > 1
         then \<lparr>inputs = finalMixInputLabels,
               ops = [Amix (length finalMixInputLabels) First (Some 2)], out = ''[preMaster]''\<rparr>
         else \<lparr>inputs = [''[processedVoice]''], ops = [Anull], out = ''[preMaster]''\<rparr>)"

text \<open>Section 5, mastering: loudness normalisation and the limiter, each if configured.\<close>

definition masterChain :: "transmission_mixer \<Rightarrow> chain" where
  "masterChain this =
     (let masteringConfig = cfg_mastering (tm_config this);
          proc = cfg_processing (tm_config this)
      in \<lparr>inputs = [''[preMaster]''],
          ops = (if normalizeLoudness masteringConfig \<and> truthy (targetLufs proc)
                 then [Loudnorm (the (targetLufs proc)) (truePeakDb proc)] else [])
                @ (if truthy (limiterThreshold masteringConfig) \<and> truthy (limiterAttack masteringConfig)
                      \<and> truthy (limiterRelease masteringConfig)
                   then [Alimiter (10 powr (the (limiterThreshold masteringConfig) / 20))
                           (10 powr (the (limiterThreshold masteringConfig) / 20))
                           (the (limiterAttack masteringConfig)) (the (limiterRelease masteringConfig))]
                   else []),
          out = ''[out]''\<rparr>)"

definition buildFilterComplex ::
  "transmission_mixer \<Rightarrow> layer \<Rightarrow> layer list \<Rightarrow> analysis option \<Rightarrow> chain list" where
  "buildFilterComplex this voiceLayer backgroundLayers vocalAnalysis =
     (let rounds = map (backgroundRound this vocalAnalysis) (enumerate 0 backgroundLayers);
          processedBackgroundLabels = map snd rounds;
          (mixChains, mixedBackgroundsLabel) = backgroundMix this processedBackgroundLabels
      in [voiceChain this voiceLayer] @ concat (map fst rounds) @ mixChains
         @ [finalMix mixedBackgroundsLabel, masterChain this])"

text \<open>
  What \<open>mixLayers\<close> hands to FFmpeg. Running it is the renderer's business: \<open>run\<close> takes
  the command and the renderer's state (the files written so far) and returns the error of
  the \<open>error\<close> event, or none for \<open>end\<close>, with the new state.
\<close>

record ffmpeg_command =
  cmd_inputs :: "string list"
  complexFilter :: "chain list"
  audioCodec :: string
  audioBitrate :: string
  audioChannels :: nat
  outputOptions :: "string list"
  savePath :: string

record options =
  outputPath :: "string option"
  vocalAnalysis :: "analysis option"

text \<open>
  \<open>mixLayers\<close>. \<open>defaultPath\<close> is the path built from \<open>Date.now()\<close>, used when the
  options give none.
\<close>

definition mixLayers ::
  "transmission_mixer \<Rightarrow> (ffmpeg_command \<Rightarrow> 'r \<Rightarrow> error option \<times> 'r) \<Rightarrow> string \<Rightarrow>
   layer list \<Rightarrow> options \<Rightarrow> 'r \<Rightarrow> (error + string) \<times> 'r" where
  "mixLayers this run defaultPath layers opts r =
     (let path = (if truthy_path (outputPath opts) then the (outputPath opts) else defaultPath);
          voiceLayer = find (\<lambda>l. type l = ''voice'') layers;
          backgroundLayers = filter (\<lambda>l. type l \<noteq> ''voice'') layers
      in if (case voiceLayer of None \<Rightarrow> True | Some v \<Rightarrow> filePath v = [])
         then (Inl (Error ''Voice layer (primary input) is missing or has no file path.''), r)
         else
           (let command =
                  \<lparr>cmd_inputs = filePath (the voiceLayer)
                                 # map filePath (filter (\<lambda>l. filePath l \<noteq> []) backgroundLayers),
                   complexFilter = buildFilterComplex this (the voiceLayer) backgroundLayers (vocalAnalysis opts),
                   audioCodec = ''libmp3lame'',
                   audioBitrate = bitRate (cfg_processing (tm_config this)),
                   audioChannels = channels (cfg_processing (tm_config this)),
                   outputOptions = [''-map [out]''],
                   savePath = path\<rparr>
            in case run command r of
                 (Some err, r') \<Rightarrow> (Inl err, r')
               | (None, r') \<Rightarrow> (Inr path, r')))"




section \<open>Reading a filter graph\<close>

text \<open>
  The buses of a graph are the labels its chains write. A graph is in order when every
  label a chain reads is an input pad or was written by an earlier chain; a terminal bus is
  one no chain reads.
\<close>

definition buses :: "chain list \<Rightarrow> string list" where
  "buses g = map out g"

fun in_order :: "string list \<Rightarrow> chain list \<Rightarrow> bool" where
  "in_order avail [] = True"
| "in_order avail (c # cs) = (list_all (\<lambda>i. i \<in> set avail) (inputs c) \<and> in_order (out c # avail) cs)"

definition terminal_buses :: "chain list \<Rightarrow> string list" where
  "terminal_buses g = filter (\<lambda>b. \<not> list_ex (\<lambda>c. b \<in> set (inputs c)) g) (buses g)"

text \<open>
  The length a bus is declared to have, given the lengths of the input pads. Only \<open>amix\<close>
  declares one: \<open>duration=first\<close> is the length of its first input, \<open>duration=longest\<close>
  the longest of its inputs. Every other chain passes on the length of its first input.
\<close>

definition chain_duration :: "(string \<Rightarrow> real option) \<Rightarrow> chain \<Rightarrow> real option" where
  "chain_duration env c =
     (case inputs c of
        [] \<Rightarrow> None
      | i # rest \<Rightarrow>
          (case ops c of
             [Amix n Longest d] \<Rightarrow>
               (if list_all (\<lambda>j. env j \<noteq> None) (inputs c)
                then Some (foldl max (the (env i)) (map (\<lambda>j. the (env j)) rest)) else None)
           | _ \<Rightarrow> env i))"

fun bus_durations :: "(string \<Rightarrow> real option) \<Rightarrow> chain list \<Rightarrow> string \<Rightarrow> real option" where
  "bus_durations env [] = env"
| "bus_durations env (c # cs) = bus_durations (env(out c := chain_duration env c)) cs"

section \<open>Reading a spectrum\<close>


text \<open>
  A reference library: the discrete Fourier transform, the frequencies of the lower half of
  the bins, and the modulus of a phasor.
\<close>

definition dft :: "real list \<Rightarrow> complex list" where
  "dft xs =
     map (\<lambda>k. \<Sum>n < length xs.
                  of_real (xs ! n) * cis (- 2 * pi * real k * real n / real (length xs)))
       [0 ..< length xs]"

definition reference_fft_js :: fft_js where
  "reference_fft_js =
     \<lparr>fft = dft,
      fftFreq = (\<lambda>phasors sr. map (\<lambda>ix. real ix * (sr / real (length phasors)))
                                [0 ..< length phasors div 2]),
      fftMag = (\<lambda>z. case z of None \<Rightarrow> 0 | Some c \<Rightarrow> cmod c)\<rparr>"





section \<open>Reading a layer list\<close>




text \<open>
  The invariants of a layer: a start offset that is not negative, and fades that fit into
  the duration when the duration is known and positive.
\<close>

definition layer_invariant :: "layer \<Rightarrow> bool" where
  "layer_invariant l =
     (startOffset l \<ge> 0
      \<and> (case duration l of None \<Rightarrow> True | Some d \<Rightarrow> d \<le> 0 \<or> fadeIn l + fadeOut l \<le> d))"

text \<open>The fade-in and fade-out \<open>createLayers\<close> gives a layer of each type, added up.\<close>

definition fadeBudget :: "string \<Rightarrow> real" where
  "fadeBudget t =
     (if t = ''voice'' then 1.5
      else if t = ''structural-intro'' then 0.5
      else if t = ''structural-outro'' then 0.5
      else if t = ''ambience'' then 2
      else if t = ''music'' then 4
      else if t = ''transmission-static'' then 0.6
      else 0)"

text \<open>What \<open>createLayers\<close> fixes about a layer, given the voice duration it probed.\<close>

definition shaped :: "real option \<Rightarrow> layer \<Rightarrow> bool" where
  "shaped vd l =
     (fadeIn l + fadeOut l = fadeBudget (type l)
      \<and> startOffset l = (if type l = ''structural-outro'' then outroStartOffset vd else 0))"

section \<open>A scenario\<close>

text \<open>
  A voice of 60 s with one ambience and one music layer of 30 s each, as \<open>createLayers\<close>
  builds them, and a configuration with ducking enabled (threshold -24 dB, ratio 4, attack
  5 ms, release 250 ms). The other settings stand in for the configuration file.
\<close>

definition scenario_config :: config where
  "scenario_config =
     \<lparr>mixing = (\<lambda>k. if k = ''voiceVolume'' then Some 1.0
                     else if k = ''ambienceVolume'' then Some 0.3
                     else if k = ''musicVolume'' then Some 0.2 else None),
      voiceEQ = Some \<lparr>eq_frequency = 3000, eq_width = 1000, eq_gain = 2\<rparr>,
      cfg_ducking = \<lparr>enabled = True, threshold = - 24, ratio = 4, attack = 5, release = 250\<rparr>,
      cfg_mastering = \<lparr>normalizeLoudness = True, limiterThreshold = Some (- 1),
                       limiterAttack = Some 5, limiterRelease = Some 50\<rparr>,
      cfg_processing = \<lparr>cfg_sampleRate = 44100, format = ''mp3'', bitRate = ''192k'',
                        channels = 2, targetLufs = Some (- 16), truePeakDb = Some (- 1.5)\<rparr>\<rparr>"

definition scenario_mixer :: transmission_mixer where
  "scenario_mixer =
     \<lparr>tm_config = scenario_config,
      libraryMappings =
        \<lparr>locationAmbience = (\<lambda>k. None), unknownAmbience = [''ambience/wind.mp3''],
         moodMusic = (\<lambda>k. None), mysteriousMusic = [''music/drone.mp3''],
         staticEffects = [], introElements = [], outroElements = []\<rparr>,
      contentAnalyzer =
        \<lparr>fftLib = reference_fft_js,
         textModel = \<lparr>extractLocation = (\<lambda>t. ''unknown''), extractMood = (\<lambda>t. ''mysterious''),
                      extractTheme = (\<lambda>t. ''discovery''), extractKeywords = (\<lambda>t. []),
                      extractSetting = (\<lambda>t. ''outdoor''), getSentimentScore = (\<lambda>t. 0)\<rparr>,
         vocalAnalyzer = VocalAnalyzer 44100 2048\<rparr>,
      layerManager = \<lparr>lm_config = scenario_config, audioLibraryBasePath = ''audio-libraries''\<rparr>,
      eqCalculator = EQCalculator 44100\<rparr>"

definition scenario_voice :: layer where
  "scenario_voice =
     \<lparr>filePath = ''voice.mp3'', type = ''voice'', volume = Some 1.0, fadeIn = 0.5, fadeOut = 1.0,
      duration = Some 60, loop = None, startOffset = 0\<rparr>"

definition scenario_ambience :: layer where
  "scenario_ambience =
     \<lparr>filePath = ''audio-libraries/ambience/wind.mp3'', type = ''ambience'', volume = Some 0.3,
      fadeIn = 1.0, fadeOut = 1.0, duration = Some 30, loop = Some True, startOffset = 0\<rparr>"

definition scenario_music :: layer where
  "scenario_music =
     \<lparr>filePath = ''audio-libraries/music/drone.mp3'', type = ''music'', volume = Some 0.2,
      fadeIn = 2.0, fadeOut = 2.0, duration = Some 30, loop = Some True, startOffset = 0\<rparr>"

definition scenario_analysis :: analysis where
  "scenario_analysis =
     getDefaultAnalysis
       \<lparr>vocalProfile := Some \<lparr>dominantFrequency = 150, low = 0, mid = 0, high = 0,
                               peakFrequencies = []\<rparr>\<rparr>"

text \<open>The lengths of the three input pads of the scenario.\<close>

definition scenario_pads :: "string \<Rightarrow> real option" where
  "scenario_pads lbl =
     (if lbl = ''[0:a]'' then Some 60 else if lbl = ''[1:a]'' then Some 30
      else if lbl = ''[2:a]'' then Some 30 else None)"

text \<open>
  The libraries of the scenario and a world in which its three files can be read. In
  \<open>scenario_world_no_music\<close> the music file is gone.
\<close>

definition scenario_libraries :: libraries where
  "scenario_libraries =
     \<lparr>ambience = [''ambience/wind.mp3''], music = [''music/drone.mp3''], effects = [],
      structural = Some \<lparr>intro = None, outro = None\<rparr>\<rparr>"

definition scenario_world :: world where
  "scenario_world =
     \<lparr>fs_access = (\<lambda>p. p = ''voice.mp3'' \<or> p = ''audio-libraries/ambience/wind.mp3''
                         \<or> p = ''audio-libraries/music/drone.mp3''),
      ffprobe = (\<lambda>p. if p = ''voice.mp3'' then Inr (Some 60)
                      else if p = ''audio-libraries/ambience/wind.mp3'' then Inr (Some 30)
                      else if p = ''audio-libraries/music/drone.mp3'' then Inr (Some 30)
                      else Inl (Error ''ffprobe failed'')),
      speechToText = (\<lambda>p. Inr ''a signal from the coast''),
      decode = (\<lambda>p. ([], None))\<rparr>"



text \<open>
  A voice of half a second with a structural outro of five seconds.
\<close>

definition short_voice_libraries :: libraries where
  "short_voice_libraries =
     \<lparr>ambience = [], music = [], effects = [],
      structural = Some \<lparr>intro = None, outro = Some ''structural/outros/outro.mp3''\<rparr>\<rparr>"

definition short_voice_world :: world where
  "short_voice_world =
     \<lparr>fs_access = (\<lambda>p. True),
      ffprobe = (\<lambda>p. if p = ''voice.mp3'' then Inr (Some 0.5) else Inr (Some 5)),
      speechToText = (\<lambda>p. Inr ''a signal from the coast''),
      decode = (\<lambda>p. ([], None))\<rparr>"

section \<open>Properties of the EQ planner\<close>






section \<open>Properties of the mix graph compiler\<close>

lemma out_generateBackgroundEQ:
  "out (generateBackgroundEQ c p t lbl) = ''['' @ remove1 CHR '']'' (remove1 CHR ''['' lbl) @ ''_eq]''"
  by (simp add: generateBackgroundEQ_def Let_def)

lemma inputs_generateBackgroundEQ: "inputs (generateBackgroundEQ c p t lbl) = [lbl]"
  by (simp add: generateBackgroundEQ_def Let_def)

lemma wiring_voiceChain:
  "inputs (voiceChain this v) = [''[0:a]'']" "out (voiceChain this v) = ''[processedVoice]''"
  by (simp_all add: voiceChain_def)

lemma wiring_masterChain:
  "inputs (masterChain this) = [''[preMaster]'']" "out (masterChain this) = ''[out]''"
  by (simp_all add: masterChain_def Let_def)

lemma wiring_finalMix_None:
  "inputs (finalMix None) = [''[processedVoice]'']" "out (finalMix None) = ''[preMaster]''"
  by (simp_all add: finalMix_def)

lemma wiring_finalMix_Some:
  "inputs (finalMix (Some lbl)) = [''[processedVoice]'', lbl]" "out (finalMix (Some lbl)) = ''[preMaster]''"
  "ops (finalMix (Some lbl)) = [Amix 2 First (Some 2)]"
  by (simp_all add: finalMix_def)

lemma buildFilterComplex_voice_only:
  "buildFilterComplex this v [] va = [voiceChain this v, finalMix None, masterChain this]"
  by (simp add: buildFilterComplex_def backgroundMix_def)

lemma backgroundRound_0:
  assumes "vocalProfile a = Some p"
  shows "backgroundRound this (Some a) (0, l) =
           ([\<lparr>inputs = [''[1:a]''],
              ops = [Volume (js_or (js_or (volume l) (mixing (tm_config this) (type l @ ''Volume''))) (Some 0.1))]
                    @ fades l,
              out = ''[bg0_volfade]''\<rparr>,
             generateBackgroundEQ (eqCalculator this) (Some p) (type l) ''[bg0_volfade]''],
            ''[bg0_volfade_eq]'')"
  using assms
  by (simp add: backgroundRound_def Let_def out_generateBackgroundEQ)

lemma backgroundRound_1:
  assumes "vocalProfile a = Some p"
  shows "backgroundRound this (Some a) (Suc 0, l) =
           ([\<lparr>inputs = [''[2:a]''],
              ops = [Volume (js_or (js_or (volume l) (mixing (tm_config this) (type l @ ''Volume''))) (Some 0.1))]
                    @ fades l,
              out = ''[bg1_volfade]''\<rparr>,
             generateBackgroundEQ (eqCalculator this) (Some p) (type l) ''[bg1_volfade]''],
            ''[bg1_volfade_eq]'')"
  using assms
  by (simp add: backgroundRound_def Let_def out_generateBackgroundEQ)

lemma chain_duration_voiceChain: "chain_duration env (voiceChain this v) = env ''[0:a]''"
  by (simp add: chain_duration_def voiceChain_def)

lemma chain_duration_finalMix: "chain_duration env (finalMix lbl) = env ''[processedVoice]''"
  by (cases lbl) (simp_all add: chain_duration_def finalMix_def)

lemma chain_duration_masterChain: "chain_duration env (masterChain this) = env ''[preMaster]''"
  by (simp add: chain_duration_def masterChain_def Let_def)

lemma buildFilterComplex_two_backgrounds:
  assumes "enabled (cfg_ducking (tm_config this))" and "vocalProfile a = Some p"
  shows "buildFilterComplex this v [b0, b1] (Some a) =
           [voiceChain this v]
           @ fst (backgroundRound this (Some a) (0, b0))
           @ fst (backgroundRound this (Some a) (Suc 0, b1))
           @ [\<lparr>inputs = [''[bg0_volfade_eq]'', ''[bg1_volfade_eq]''],
               ops = [Amix 2 Longest None], out = ''[rawMixedBackgrounds]''\<rparr>,
              \<lparr>inputs = [''[rawMixedBackgrounds]'', ''[processedVoice]''],
               ops = [Sidechaincompress (threshold (cfg_ducking (tm_config this)))
                        (ratio (cfg_ducking (tm_config this))) (attack (cfg_ducking (tm_config this)))
                        (release (cfg_ducking (tm_config this)))],
               out = ''[mixedBackgrounds]''\<rparr>,
              finalMix (Some ''[mixedBackgrounds]''), masterChain this]"
  using assms
  by (simp add: buildFilterComplex_def backgroundMix_def Let_def
      backgroundRound_0 [OF assms(2)] backgroundRound_1 [OF assms(2)])

text \<open>
  C7. The graph compiled for a voice layer with no background layer has the three buses
  \<open>[processedVoice]\<close>, \<open>[preMaster]\<close>, \<open>[out]\<close>; its only terminal bus is \<open>[out]\<close>, and
  every label a chain reads is the voice's input pad \<open>[0:a]\<close> or a bus written earlier.
\<close>

theorem voice_only_graph:
  "terminal_buses (buildFilterComplex this voiceLayer [] va) = [''[out]'']
   \<and> in_order [''[0:a]''] (buildFilterComplex this voiceLayer [] va)
   \<and> buses (buildFilterComplex this voiceLayer [] va)
       = [''[processedVoice]'', ''[preMaster]'', ''[out]'']"
  by (simp add: buildFilterComplex_voice_only terminal_buses_def buses_def
      wiring_voiceChain wiring_masterChain wiring_finalMix_None)

text \<open>
  C6 (as the code has it). With ducking enabled and a vocal profile at hand, the graph for a
  voice and two background layers has nine buses: the voice bus, a volume-and-fade bus and an
  EQ bus for each background, the combined bus, the ducked bus, the pre-master bus and the
  terminal bus \<open>[out]\<close>. It is in order, \<open>[out]\<close> is its only terminal bus, and the length
  declared for \<open>[out]\<close> is that of the voice's input pad.
\<close>

theorem two_backgrounds_graph:
  assumes "enabled (cfg_ducking (tm_config this))" and "vocalProfile a = Some p"
  shows "buses (buildFilterComplex this v [b0, b1] (Some a)) =
           [''[processedVoice]'', ''[bg0_volfade]'', ''[bg0_volfade_eq]'', ''[bg1_volfade]'',
            ''[bg1_volfade_eq]'', ''[rawMixedBackgrounds]'', ''[mixedBackgrounds]'',
            ''[preMaster]'', ''[out]'']
         \<and> terminal_buses (buildFilterComplex this v [b0, b1] (Some a)) = [''[out]'']
         \<and> in_order [''[0:a]'', ''[1:a]'', ''[2:a]''] (buildFilterComplex this v [b0, b1] (Some a))
         \<and> bus_durations env (buildFilterComplex this v [b0, b1] (Some a)) ''[out]'' = env ''[0:a]''"
proof -
  let ?g = "buildFilterComplex this v [b0, b1] (Some a)"
  note g = buildFilterComplex_two_backgrounds [OF assms, of v b0 b1]
  note r = backgroundRound_0 [OF assms(2)] backgroundRound_1 [OF assms(2)]
  have b: "buses ?g =
           [''[processedVoice]'', ''[bg0_volfade]'', ''[bg0_volfade_eq]'', ''[bg1_volfade]'',
            ''[bg1_volfade_eq]'', ''[rawMixedBackgrounds]'', ''[mixedBackgrounds]'',
            ''[preMaster]'', ''[out]'']"
    by (simp add: g r buses_def wiring_voiceChain wiring_masterChain wiring_finalMix_Some
        out_generateBackgroundEQ)
  have t: "terminal_buses ?g = [''[out]'']"
    unfolding terminal_buses_def b
    by (simp add: g r wiring_voiceChain wiring_masterChain wiring_finalMix_Some
        inputs_generateBackgroundEQ)
  have o: "in_order [''[0:a]'', ''[1:a]'', ''[2:a]''] ?g"
    by (simp add: g r wiring_voiceChain wiring_masterChain wiring_finalMix_Some
        inputs_generateBackgroundEQ out_generateBackgroundEQ)
  have d: "bus_durations env ?g ''[out]'' = env ''[0:a]''"
    by (simp add: g r chain_duration_voiceChain chain_duration_finalMix chain_duration_masterChain
        wiring_voiceChain wiring_masterChain wiring_finalMix_Some out_generateBackgroundEQ)
  from b t o d show ?thesis by simp
qed

lemma scenario_premises:
  "enabled (cfg_ducking (tm_config scenario_mixer))"
  "vocalProfile scenario_analysis =
     Some \<lparr>dominantFrequency = 150, low = 0, mid = 0, high = 0, peakFrequencies = []\<rparr>"
  by (simp_all add: scenario_mixer_def scenario_config_def scenario_analysis_def)

theorem two_backgrounds_graph_witness:
  "enabled (cfg_ducking (tm_config scenario_mixer))
   \<and> vocalProfile scenario_analysis =
       Some \<lparr>dominantFrequency = 150, low = 0, mid = 0, high = 0, peakFrequencies = []\<rparr>
   \<and> length (buses (buildFilterComplex scenario_mixer scenario_voice
                      [scenario_ambience, scenario_music] (Some scenario_analysis))) = 9
   \<and> bus_durations scenario_pads
        (buildFilterComplex scenario_mixer scenario_voice
           [scenario_ambience, scenario_music] (Some scenario_analysis)) ''[out]'' = Some 60"
  using scenario_premises
    two_backgrounds_graph [OF scenario_premises, of scenario_voice scenario_ambience scenario_music
      scenario_pads]
  by (simp add: scenario_pads_def)

text \<open>C6 as stated fails: the graph of the scenario does not have seven buses.\<close>

theorem scenario_graph_not_seven_buses:
  "length (buses (buildFilterComplex scenario_mixer scenario_voice
                    [scenario_ambience, scenario_music] (Some scenario_analysis))) \<noteq> 7"
  by (simp add: buildFilterComplex_two_backgrounds [OF scenario_premises] buses_def
      backgroundRound_0 [OF scenario_premises(2)] backgroundRound_1 [OF scenario_premises(2)])

text \<open>
  C10. When the layer list has no voice layer, or its first voice layer has no file path,
  \<open>mixLayers\<close> rejects with its own error: no command reaches the renderer, whatever the
  renderer is, and the renderer's state is as it was.
\<close>

theorem mixLayers_requires_voice:
  assumes "case find (\<lambda>l. type l = ''voice'') layers of None \<Rightarrow> True | Some v \<Rightarrow> filePath v = []"
  shows "mixLayers this run defaultPath layers opts r =
           (Inl (Error ''Voice layer (primary input) is missing or has no file path.''), r)"
  using assms by (auto simp: mixLayers_def Let_def split: option.splits)

theorem mixLayers_requires_voice_witness:
  "(case find (\<lambda>l. type l = ''voice'') [scenario_ambience, scenario_music] of
      None \<Rightarrow> True | Some v \<Rightarrow> filePath v = [])
   \<and> mixLayers scenario_mixer (\<lambda>c files. (None, savePath c # files)) ''output/transmission.mp3''
         [scenario_ambience, scenario_music] \<lparr>outputPath = None, vocalAnalysis = Some scenario_analysis\<rparr> []
       = (Inl (Error ''Voice layer (primary input) is missing or has no file path.''), [])"
proof -
  have h: "case find (\<lambda>l. type l = ''voice'') [scenario_ambience, scenario_music] of
             None \<Rightarrow> True | Some v \<Rightarrow> filePath v = []"
    by (simp add: scenario_ambience_def scenario_music_def)
  from mixLayers_requires_voice [OF h] h show ?thesis by simp
qed

section \<open>Properties of the layer assembler\<close>











lemma createLayers_scenario:
  "createLayers (layerManager scenario_mixer) scenario_world (0, 0, 0) ''voice.mp3'' scenario_libraries
     = Inr [scenario_voice, scenario_ambience, scenario_music]"
  by (simp add: createLayers_def voiceSection_def introSection_def outroSection_def
      ambienceSection_def musicSection_def effectSection_def libraryLayer_def resolveLibraryPath_def
      getAudioDuration_def pick_def truthy_path_def scenario_mixer_def scenario_config_def scenario_world_def
      scenario_libraries_def scenario_voice_def scenario_ambience_def scenario_music_def)




lemma libraryLayer_mk: "libraryLayer this w rel mk = Inr l \<Longrightarrow> \<exists>p d. l = mk p d"
  by (auto simp: libraryLayer_def split: sum.splits)

lemma voiceSection_shaped: "voiceSection this w voice = Inr (vd', ls) \<Longrightarrow> list_all (shaped vd) ls"
  by (auto simp: voiceSection_def shaped_def fadeBudget_def split: sum.splits if_splits)

lemma introSection_shaped: "introSection this w libs = Inr ls \<Longrightarrow> list_all (shaped vd) ls"
  by (auto simp: introSection_def shaped_def fadeBudget_def
      split: option.splits sum.splits if_splits dest!: libraryLayer_mk)

lemma outroSection_shaped: "outroSection this w libs vd = Inr ls \<Longrightarrow> list_all (shaped vd) ls"
  by (auto simp: outroSection_def shaped_def fadeBudget_def
      split: option.splits sum.splits if_splits dest!: libraryLayer_mk)

lemma ambienceSection_shaped: "ambienceSection this w r libs = Inr ls \<Longrightarrow> list_all (shaped vd) ls"
  by (auto simp: ambienceSection_def shaped_def fadeBudget_def
      split: option.splits sum.splits if_splits dest!: libraryLayer_mk)

lemma musicSection_shaped: "musicSection this w r libs = Inr ls \<Longrightarrow> list_all (shaped vd) ls"
  by (auto simp: musicSection_def shaped_def fadeBudget_def
      split: option.splits sum.splits if_splits dest!: libraryLayer_mk)

lemma effectSection_shaped: "effectSection this w r libs = Inr ls \<Longrightarrow> list_all (shaped vd) ls"
  by (auto simp: effectSection_def shaped_def fadeBudget_def
      split: option.splits sum.splits if_splits dest!: libraryLayer_mk)

lemma createLayers_shaped:
  assumes "createLayers this w rnd voice libs = Inr layers"
  shows "\<exists>vd. getAudioDuration w voice = Inr vd \<and> list_all (shaped vd) layers"
proof -
  from assms obtain vd ls1 ls2 ls3 ls4 ls5 ls6 where
    s: "voiceSection this w voice = Inr (vd, ls1)" "introSection this w libs = Inr ls2"
       "outroSection this w libs vd = Inr ls3" "ambienceSection this w (fst rnd) libs = Inr ls4"
       "musicSection this w (fst (snd rnd)) libs = Inr ls5"
       "effectSection this w (snd (snd rnd)) libs = Inr ls6"
    and l: "layers = ls1 @ ls2 @ ls3 @ ls4 @ ls5 @ ls6"
    by (auto simp: createLayers_def split: sum.splits prod.splits)
  have "list_all (shaped vd) layers"
    using voiceSection_shaped [OF s(1), of vd] introSection_shaped [OF s(2), of vd]
      outroSection_shaped [OF s(3)] ambienceSection_shaped [OF s(4), of vd]
      musicSection_shaped [OF s(5), of vd] effectSection_shaped [OF s(6), of vd]
    by (simp add: l)
  moreover have "getAudioDuration w voice = Inr vd"
    using s(1) by (auto simp: voiceSection_def split: sum.splits if_splits)
  ultimately show ?thesis by blast
qed

text \<open>
  C8 (as the code has it). For a layer \<open>createLayers\<close> returns, fade-in plus fade-out is
  the fixed total of its type (voice 1.5 s, intro 0.5 s, outro 0.5 s, ambience 2 s, music
  4 s, effect 0.6 s), whatever the duration; the start offset is 0, except for the
  structural outro, where it is the voice duration less one second when that duration is
  positive. So the start offset is not negative when the voice lasts at least one second
  (or has no positive duration), and a layer meets the invariants exactly when its start
  offset is not negative and its duration, if known and positive, is at least the fade
  total of its type.
\<close>

theorem emitted_layers_shape:
  assumes "createLayers this w rnd voiceFilePath libs = Inr layers" and "l \<in> set layers"
    and "getAudioDuration w voiceFilePath = Inr voiceDuration"
  shows "fadeIn l + fadeOut l = fadeBudget (type l)
         \<and> startOffset l = (if type l = ''structural-outro'' then outroStartOffset voiceDuration else 0)
         \<and> ((case voiceDuration of None \<Rightarrow> True | Some d \<Rightarrow> d \<le> 0 \<or> 1 \<le> d) \<longrightarrow> 0 \<le> startOffset l)
         \<and> (layer_invariant l \<longleftrightarrow>
              0 \<le> startOffset l
              \<and> (case duration l of None \<Rightarrow> True | Some d \<Rightarrow> d \<le> 0 \<or> fadeBudget (type l) \<le> d))"
proof -
  from createLayers_shaped [OF assms(1)] assms(2,3) have "shaped voiceDuration l"
    by (auto simp: list_all_iff)
  then show ?thesis
    by (auto simp: shaped_def layer_invariant_def outroStartOffset_def split: option.splits)
qed

lemma createLayers_short_voice:
  "createLayers (layerManager scenario_mixer) short_voice_world (0, 0, 0) ''voice.mp3'' short_voice_libraries
     = Inr [\<lparr>filePath = ''voice.mp3'', type = ''voice'', volume = Some 1.0, fadeIn = 0.5,
              fadeOut = 1.0, duration = Some 0.5, loop = None, startOffset = 0\<rparr>,
            \<lparr>filePath = ''audio-libraries/structural/outros/outro.mp3'', type = ''structural-outro'',
              volume = Some 1.0, fadeIn = 0.5, fadeOut = 0, duration = Some 5, loop = None,
              startOffset = - 0.5\<rparr>]"
  by (simp add: createLayers_def voiceSection_def introSection_def outroSection_def
      ambienceSection_def musicSection_def effectSection_def libraryLayer_def resolveLibraryPath_def
      getAudioDuration_def pick_def truthy_path_def outroStartOffset_def js_or_def truthy_def
      scenario_mixer_def scenario_config_def short_voice_world_def short_voice_libraries_def)

text \<open>
  C8 as stated fails: for a voice of half a second with a structural outro the voice layer's
  fades (1.5 s) exceed its duration and the outro starts at -0.5 s.
\<close>

theorem short_voice_breaks_layer_invariants:
  "createLayers (layerManager scenario_mixer) short_voice_world (0, 0, 0) ''voice.mp3'' short_voice_libraries
     = Inr [\<lparr>filePath = ''voice.mp3'', type = ''voice'', volume = Some 1.0, fadeIn = 0.5,
              fadeOut = 1.0, duration = Some 0.5, loop = None, startOffset = 0\<rparr>,
            \<lparr>filePath = ''audio-libraries/structural/outros/outro.mp3'', type = ''structural-outro'',
              volume = Some 1.0, fadeIn = 0.5, fadeOut = 0, duration = Some 5, loop = None,
              startOffset = - 0.5\<rparr>]
   \<and> \<not> layer_invariant \<lparr>filePath = ''voice.mp3'', type = ''voice'', volume = Some 1.0, fadeIn = 0.5,
              fadeOut = 1.0, duration = Some 0.5, loop = None, startOffset = 0\<rparr>
   \<and> \<not> layer_invariant \<lparr>filePath = ''audio-libraries/structural/outros/outro.mp3'',
              type = ''structural-outro'', volume = Some 1.0, fadeIn = 0.5, fadeOut = 0,
              duration = Some 5, loop = None, startOffset = - 0.5\<rparr>"
  by (simp add: createLayers_short_voice layer_invariant_def)

theorem emitted_layers_shape_witness:
  "createLayers (layerManager scenario_mixer) scenario_world (0, 0, 0) ''voice.mp3'' scenario_libraries
     = Inr [scenario_voice, scenario_ambience, scenario_music]
   \<and> scenario_music \<in> set [scenario_voice, scenario_ambience, scenario_music]
   \<and> getAudioDuration scenario_world ''voice.mp3'' = Inr (Some 60)
   \<and> fadeIn scenario_music + fadeOut scenario_music = 4
   \<and> startOffset scenario_music = 0
   \<and> layer_invariant scenario_music"
proof -
  have g: "getAudioDuration scenario_world ''voice.mp3'' = Inr (Some 60)"
    by (simp add: getAudioDuration_def scenario_world_def)
  have m: "scenario_music \<in> set [scenario_voice, scenario_ambience, scenario_music]" by simp
  from emitted_layers_shape [OF createLayers_scenario m g] createLayers_scenario m g
  show ?thesis by (simp add: scenario_music_def fadeBudget_def)
qed

section \<open>Properties of the spectral analyzer\<close>



































section \<open>Properties of the request pipeline\<close>














end
